theory Spec2Isabelle
  imports Main "HOL-Library.Word"
begin

section \<open>The validator contract \<open>EtherscanVerifier\<close>\<close>

subsection \<open>Data\<close>

text \<open>
  Solidity's \<open>bytes\<close> and \<open>string\<close> are byte sequences; a HOL \<open>char\<close> is one byte, so both
  are \<open>string\<close>. \<open>bytes32\<close> and \<open>uint256\<close> are 256-bit words, an address is a 160-bit word.
\<close>

type_synonym bytes = string
type_synonym bytes32 = "256 word"
type_synonym uint256 = "256 word"
type_synonym address = "160 word"

text \<open>
  The six values that \<open>abi.decode\<close> binds at the head of \<open>submitBalance\<close>, under the names
  of the local variables (\<open>balance'\<close> is the local \<open>_balance\<close>).
\<close>

record journal =
  notaryKeyFingerprint :: bytes32
  "method" :: string
  url :: string
  timestamp :: uint256
  queriesHash :: bytes32
  balance' :: string

text \<open>\<open>event BalanceVerified(string balance, string url, uint256 timestamp, uint256 blockNumber)\<close>\<close>

datatype event = BalanceVerified string string uint256 uint256

text \<open>
  The five custom errors of the contract, and the three aborts the compiler adds: the revert
  of a failing \<open>abi.decode\<close>, the panic of an array index out of bounds, and the revert
  (with empty data) of an external call to an address that holds no code.
\<close>

datatype error =
    InvalidNotaryKeyFingerprint
  | InvalidQueriesHash
  | InvalidUrl
  | ZKProofVerificationFailed
  | InvalidBalance
  | AbiDecodeRevert
  | Panic nat
  | NoCodeRevert

text \<open>
  The outcome of the external call \<open>VERIFIER.verify(seal, imageId, journalDigest)\<close>. The
  interface function returns nothing and is \<open>view\<close>: when the address holds code the call
  either returns or reverts, and the revert carries a payload (the cause). When the address
  holds no code (\<open>NoCode\<close>) there is no call: the function has no return value to decode, so
  the compiler guards the call with a test of \<open>extcodesize\<close>, and that guard reverts in the
  caller, with empty data and outside the reach of \<open>catch\<close>. The record of a call made is
  kept in the execution state, so that "the verifier was (not) called" is a statement about
  the model.
\<close>

datatype call_result = Returned | Reverted bytes | NoCode

datatype external_call = Verify address bytes bytes32 bytes32

text \<open>
  What the contract takes from the machine rather than from its own source: the ABI decoder
  for the tuple type \<open>(bytes32, string, string, uint256, bytes32, string)\<close>, the two hash
  builtins, what is behind the verifier address, and the height of the current block.
  They are parameters of the model: every theorem below holds for all of them.
\<close>

record evm =
  abi_decode :: "bytes \<Rightarrow> journal option"
  keccak256 :: "bytes \<Rightarrow> bytes32"
  sha256 :: "bytes \<Rightarrow> bytes32"
  verify :: "address \<Rightarrow> bytes \<Rightarrow> bytes32 \<Rightarrow> bytes32 \<Rightarrow> call_result"
  block_number :: uint256

text \<open>
  The contract's immutables and storage variables, then the ledger's view of one execution:
  the events emitted and the external calls made, in order.
\<close>

record EtherscanVerifier =
  VERIFIER :: address
  IMAGE_ID :: bytes32
  EXPECTED_NOTARY_KEY_FINGERPRINT :: bytes32
  EXPECTED_QUERIES_HASH :: bytes32
  expectedUrlPattern :: string
  balance :: string

record ledger = EtherscanVerifier +
  events :: "event list"
  calls :: "external_call list"

subsection \<open>Operations\<close>

definition constructor ::
  "address \<Rightarrow> bytes32 \<Rightarrow> bytes32 \<Rightarrow> bytes32 \<Rightarrow> string \<Rightarrow> ledger" where
  "constructor verifier imageId expectedNotaryKeyFingerprint expectedQueriesHash
       expectedUrlPattern' =
     \<lparr> VERIFIER = verifier,
       IMAGE_ID = imageId,
       EXPECTED_NOTARY_KEY_FINGERPRINT = expectedNotaryKeyFingerprint,
       EXPECTED_QUERIES_HASH = expectedQueriesHash,
       expectedUrlPattern = expectedUrlPattern',
       balance = [],
       events = [],
       calls = [] \<rparr>"

text \<open>
  The loop \<open>for (uint256 i = 0; i < patternBytes.length; i++)\<close> of \<open>submitBalance\<close>, from
  index \<open>i\<close> on. A checked index out of range is Solidity's \<open>Panic(0x32)\<close>.
\<close>

function url_loop :: "bytes \<Rightarrow> bytes \<Rightarrow> nat \<Rightarrow> error + unit" where
  "url_loop urlBytes patternBytes i =
     (if i < length patternBytes then
        (if length urlBytes \<le> i then Inl (Panic 0x32)
         else if urlBytes ! i \<noteq> patternBytes ! i then Inl InvalidUrl
         else url_loop urlBytes patternBytes (i + 1))
      else Inr ())"
  by pat_completeness auto
termination
  by (relation "measure (\<lambda>(urlBytes, patternBytes, i). length patternBytes - i)") auto

declare url_loop.simps [simp del]

text \<open>
  The external call of the \<open>try\<close> statement: its outcome, and the state with the call
  recorded when one was made.
\<close>

definition try_verify ::
  "evm \<Rightarrow> address \<Rightarrow> bytes \<Rightarrow> bytes32 \<Rightarrow> bytes32 \<Rightarrow> ledger \<Rightarrow> call_result \<times> ledger" where
  "try_verify m verifier seal imageId journalDigest s =
     (case verify m verifier seal imageId journalDigest of
        NoCode \<Rightarrow> (NoCode, s)
      | Returned \<Rightarrow>
          (Returned, s\<lparr>calls := calls s @ [Verify verifier seal imageId journalDigest]\<rparr>)
      | Reverted cause \<Rightarrow>
          (Reverted cause, s\<lparr>calls := calls s @ [Verify verifier seal imageId journalDigest]\<rparr>))"

text \<open>
  \<open>submitBalance(journalData, seal)\<close>: the outcome and the execution state at the point
  where the function returned or reverted.
\<close>

definition submitBalance ::
  "evm \<Rightarrow> bytes \<Rightarrow> bytes \<Rightarrow> ledger \<Rightarrow> (error + unit) \<times> ledger" where
  "submitBalance m journalData seal s =
     (case abi_decode m journalData of
        None \<Rightarrow> (Inl AbiDecodeRevert, s)
      | Some j \<Rightarrow>
          if notaryKeyFingerprint j \<noteq> EXPECTED_NOTARY_KEY_FINGERPRINT s
          then (Inl InvalidNotaryKeyFingerprint, s)
          else if keccak256 m (method j) \<noteq> keccak256 m ''GET''
          then (Inl InvalidUrl, s)
          else if queriesHash j \<noteq> EXPECTED_QUERIES_HASH s
          then (Inl InvalidQueriesHash, s)
          else
            let urlBytes = url j; patternBytes = expectedUrlPattern s in
            if length urlBytes < length patternBytes
            then (Inl InvalidUrl, s)
            else
              (case url_loop urlBytes patternBytes 0 of
                 Inl e \<Rightarrow> (Inl e, s)
               | Inr _ \<Rightarrow>
                   if length (balance' j) = 0
                   then (Inl InvalidBalance, s)
                   else
                     (case try_verify m (VERIFIER s) seal (IMAGE_ID s)
                             (sha256 m journalData) s of
                        (NoCode, s1) \<Rightarrow> (Inl NoCodeRevert, s1)
                      | (Reverted cause, s1) \<Rightarrow> (Inl ZKProofVerificationFailed, s1)
                      | (Returned, s1) \<Rightarrow>
                          let s2 = s1\<lparr>balance := balance' j\<rparr>;
                              s3 = s2\<lparr>events := events s2 @
                                     [BalanceVerified (balance' j) (url j) (timestamp j)
                                        (block_number m)]\<rparr>
                          in (Inr (), s3))))"

subsection \<open>A test deployment\<close>

text \<open>
  Concrete values for running the model: the client scenario of the specification (prefix
  \<open>https://api.example.com/v2\<close>, value \<open>123.45\<close>, seal \<open>0xAA\<close>), with doubles for the
  machine's part in the manner of the repository's mock verifier. The decoder double knows
  a handful of journals by name; \<open>test_keccak256\<close> has the Keccak-256 digests of the three
  method strings used below and otherwise, like the SHA-256 double, reads its input as a
  big-endian number; the verifier double sits at one address and accepts one seal, and no
  other address holds code.
\<close>

definition test_journal :: journal where
  "test_journal =
     \<lparr> notaryKeyFingerprint = 0xA7E62D7F17AA7A22C26BDB93B7CE9400E826FFB2C6F54E54D2DED015677499AF,
       method = ''GET'',
       url = ''https://api.example.com/v2?x=1'',
       timestamp = 1700000000,
       queriesHash = 0x85DB70A06280C1096181DF15A8C754A968A0EB669B34D686194CE1FACEB5C6C6,
       balance' = ''123.45'' \<rparr>"

definition test_vectors :: "(bytes \<times> journal) list" where
  "test_vectors =
     [(''journal'', test_journal),
      (''journal-get'', test_journal\<lparr>method := ''get''\<rparr>),
      (''journal-POST'', test_journal\<lparr>method := ''POST''\<rparr>),
      (''journal-other-host'', test_journal\<lparr>url := ''https://api.example.org/v2?x=1''\<rparr>),
      (''journal-short-url'', test_journal\<lparr>url := ''https://api''\<rparr>),
      (''journal-qh-bit'', test_journal\<lparr>queriesHash := queriesHash test_journal + 1\<rparr>),
      (''journal-no-value'', test_journal\<lparr>balance' := []\<rparr>),
      (''journal-all-wrong'',
         \<lparr> notaryKeyFingerprint = 0, method = ''POST'', url = [], timestamp = 0,
           queriesHash = 0, balance' = [] \<rparr>)]"

definition test_hash :: "bytes \<Rightarrow> bytes32" where
  "test_hash bs = foldl (\<lambda>a c. 256 * a + of_char c) 0 bs"

definition test_keccak256 :: "bytes \<Rightarrow> bytes32" where
  "test_keccak256 bs =
     (if bs = ''GET''
      then 0x5A61BABEB76C554783CA90A1A250E84F1B703409FDFF33C217AB64DD51F05199
      else if bs = ''get''
      then 0x6817C00F03DE8B5BD58D2016B59D251C13056B989171C5852949903BC043BC27
      else if bs = ''POST''
      then 0x2FCA5A5E7CCDE9FF7491EFB205181F9945D95FEEE2F835F237FF423414A824E3
      else test_hash bs)"

definition test_verify :: "address \<Rightarrow> bytes \<Rightarrow> bytes32 \<Rightarrow> bytes32 \<Rightarrow> call_result" where
  "test_verify a seal imageId journalDigest =
     (if a \<noteq> 0x925D8331DDC0A1F0D96E68CF073DFE1D92B69187 then NoCode
      else if seal = [CHR 0xAA] then Returned
      else Reverted ''VerificationFailed()'')"

definition test_evm :: evm where
  "test_evm =
     \<lparr> abi_decode = map_of test_vectors,
       keccak256 = test_keccak256,
       sha256 = test_hash,
       verify = test_verify,
       block_number = 9000000 \<rparr>"

definition test_contract :: ledger where
  "test_contract =
     constructor 0x925D8331DDC0A1F0D96E68CF073DFE1D92B69187 0x1234
       (notaryKeyFingerprint test_journal) (queriesHash test_journal)
       ''https://api.example.com/v2''"

section \<open>The submission client \<open>submitProof\<close>\<close>

subsection \<open>Data\<close>

text \<open>
  JavaScript strings are modelled as \<open>string\<close>, an absent (\<open>undefined\<close>) value as \<open>None\<close>.
  A string is truthy when it is present and not empty.
\<close>

definition truthy :: "string option \<Rightarrow> bool" where
  "truthy v = (case v of None \<Rightarrow> False | Some t \<Rightarrow> t \<noteq> [])"

text \<open>\<open>a || b\<close> on optional strings.\<close>

definition or_js :: "string option \<Rightarrow> string option \<Rightarrow> string option" where
  "or_js a b = (if truthy a then a else b)"

text \<open>
  \<open>interface ProofData\<close>: the pair \<open>zkProof\<close>, \<open>journalDataAbi\<close> at the top level and, one
  level down, under \<open>data\<close>. \<open>interface DeploymentInfo\<close>, \<open>SubmitProofOptions\<close> (its optional
  \<open>contractAddress\<close> under the name it is destructured to) and \<open>SubmitProofResult\<close> (its
  \<open>balance\<close> under the name of the variable it is filled from).
\<close>

record proof_pair =
  zkProof :: "string option"
  journalDataAbi :: "string option"

record ProofData = proof_pair +
  success :: bool
  data :: "proof_pair option"

record DeploymentInfo =
  contractAddress :: "string option"

record SubmitProofOptions =
  network :: string
  proofFile :: string
  overrideAddress :: "string option"

record receipt =
  receipt_blockNumber :: int
  receipt_gasUsed :: int
  receipt_status :: string

record SubmitProofResult =
  transactionHash :: string
  blockNumber :: int
  gasUsed :: int
  storedBalance :: string

text \<open>
  An error object thrown by the RPC library: its \<open>message\<close>, its \<open>data\<close> when that is a
  string, and its \<open>cause\<close> when that is an object (with the cause's \<open>data\<close> when a string).
\<close>

datatype thrown = Thrown (message: string) (top_data: "string option")
  (cause_data: "string option option")

text \<open>
  What \<open>submitProof\<close> rejects with, one constructor for each \<open>throw new Error(...)\<close> of the
  function and of \<open>getNetworkConfig\<close>, in source order; the \<open>SyntaxError\<close> of \<open>JSON.parse\<close>;
  the \<open>RangeError\<close> of \<open>toISOString\<close> on an invalid date; and an error object of the
  library that the function lets through or rethrows (\<open>throw error\<close>).
\<close>

datatype exn =
    UnsupportedNetwork string
  | ContractAddressNotFound
  | ContractAddressNotConfigured string
  | PrivateKeyNotSet
  | ProofFileNotFound string
  | InvalidProofFile
  | FailedToDecodeJournalDataAbi
  | SyntaxError
  | RangeError
  | Propagated thrown

text \<open>
  The observable effects, in order: lines written with \<open>console.error\<close> (the first argument,
  then the rest) and the calls made to the ledger. The informational \<open>console.log\<close> lines
  are left out.
\<close>

datatype effect =
    ConsoleError string "string list"
  | SimulateContract string string string string
  | WriteContract string string string
  | WaitForTransactionReceipt string
  | ReadContract string

datatype 'a json_file = Missing | Malformed | Parsed 'a

text \<open>
  Everything the client reads from outside: the environment variables, the two JSON files
  (the deployment record by network, the proof bundle by resolved path), and the library
  calls it makes. \<open>simulateContract\<close> takes the RPC URL, the contract address, the two
  arguments of \<open>submitBalance\<close> and the account; \<open>writeContract\<close> the same without the account.
\<close>

record world =
  env_SEPOLIA_RPC_URL :: "string option"
  env_PRIVATE_KEY :: "string option"
  deployments :: "string \<Rightarrow> DeploymentInfo json_file"
  path_resolve :: "string \<Rightarrow> string"
  proofs :: "string \<Rightarrow> ProofData json_file"
  privateKeyToAccount :: "string \<Rightarrow> thrown + string"
  decodeAbiParameters :: "string \<Rightarrow> thrown + journal"
  decodeErrorResult :: "string \<Rightarrow> (string \<times> string list) option"
  simulateContract :: "string \<Rightarrow> string \<Rightarrow> string \<Rightarrow> string \<Rightarrow> string \<Rightarrow> thrown option"
  writeContract :: "string \<Rightarrow> string \<Rightarrow> string \<Rightarrow> string \<Rightarrow> thrown + string"
  waitForTransactionReceipt :: "string \<Rightarrow> string \<Rightarrow> thrown + receipt"
  readContract :: "string \<Rightarrow> string \<Rightarrow> thrown + string"

text \<open>A computation of the client: the effects so far, and an exception or a value.\<close>

type_synonym 'a io = "effect list \<times> (exn + 'a)"

definition andThen :: "'a io \<Rightarrow> ('a \<Rightarrow> 'b io) \<Rightarrow> 'b io" where
  "andThen r f =
     (case r of
        (es, Inl e) \<Rightarrow> (es, Inl e)
      | (es, Inr x) \<Rightarrow> (case f x of (es', y) \<Rightarrow> (es @ es', y)))"

definition quiet :: "exn + 'a \<Rightarrow> 'a io" where
  "quiet r = ([], r)"

subsection \<open>Operations\<close>

text \<open>
  \<open>String.prototype.toLowerCase\<close> on the ASCII letters. The only use compares the result
  with \<open>sepolia\<close>, and no character outside ASCII lower-cases to one of its letters.
\<close>

definition toLowerCase :: "string \<Rightarrow> string" where
  "toLowerCase t =
     map (\<lambda>c. if 65 \<le> (of_char c :: nat) \<and> (of_char c :: nat) \<le> 90
              then char_of (of_char c + 32 :: nat) else c) t"

text \<open>\<open>getNetworkConfig(network)\<close>, its \<open>rpcUrl\<close>.\<close>

definition getNetworkConfig :: "world \<Rightarrow> string \<Rightarrow> exn + string" where
  "getNetworkConfig w network' =
     (let networkLower = toLowerCase network' in
      if networkLower = ''sepolia''
      then (case or_js (env_SEPOLIA_RPC_URL w) (Some ''https://rpc.sepolia.org'') of
              Some rpcUrl \<Rightarrow> Inr rpcUrl
            | None \<Rightarrow> Inr ''https://rpc.sepolia.org'')
      else Inl (UnsupportedNetwork network'))"

text \<open>\<open>getRevertData(err)\<close>\<close>

definition getRevertData :: "thrown \<Rightarrow> string option" where
  "getRevertData err =
     (case top_data err of
        Some d \<Rightarrow> Some d
      | None \<Rightarrow>
          (case cause_data err of
             Some (Some d) \<Rightarrow> Some d
           | _ \<Rightarrow> None))"

text \<open>The mark that opens the failure lines, U+2717 in UTF-8.\<close>

definition cross :: string where
  "cross = [CHR 0xE2, CHR 0x9C, CHR 0x97]"

text \<open>
  The body of the two \<open>catch (error)\<close> blocks of \<open>submitProof\<close> up to their \<open>throw error\<close>;
  they differ in the word \<open>Simulation\<close> or \<open>Submission\<close> only.
\<close>

definition reportFailure :: "world \<Rightarrow> string \<Rightarrow> thrown \<Rightarrow> effect list" where
  "reportFailure w what err =
     (let message' = message err;
          revertData = getRevertData err
      in case revertData of
           None \<Rightarrow> [ConsoleError (cross @ '' '' @ what @ '' failed:'') [message']]
         | Some d \<Rightarrow>
             if d = [] then [ConsoleError (cross @ '' '' @ what @ '' failed:'') [message']]
             else
               (case decodeErrorResult w d of
                  Some (errorName, args) \<Rightarrow>
                    [ConsoleError (cross @ '' '' @ what @ '' failed: '' @ errorName) args]
                | None \<Rightarrow>
                    [ConsoleError (cross @ '' '' @ what @ '' failed:'') [message'],
                     ConsoleError ''Revert data:'' [d]]))"

text \<open>Lines 88 to 96: the RPC URL, from the network configuration or the environment.\<close>

definition selectRpcUrl :: "world \<Rightarrow> SubmitProofOptions \<Rightarrow> exn + string" where
  "selectRpcUrl w options =
     (case getNetworkConfig w (network options) of
        Inl e \<Rightarrow> Inl e
      | Inr rpcUrl \<Rightarrow>
          if network options = ''sepolia''
          then (case env_SEPOLIA_RPC_URL w of
                  None \<Rightarrow> Inr rpcUrl
                | Some sepoliaRpcUrl \<Rightarrow>
                    if sepoliaRpcUrl = [] then Inr rpcUrl else Inr sepoliaRpcUrl)
          else Inr rpcUrl)"

text \<open>Lines 98 to 113: the contract address, from the argument or the deployment record.\<close>

definition resolveContractAddress :: "world \<Rightarrow> SubmitProofOptions \<Rightarrow> exn + string" where
  "resolveContractAddress w options =
     (case (if truthy (overrideAddress options) then Inr (overrideAddress options)
            else case deployments w (network options) of
                   Parsed deployment \<Rightarrow> Inr (contractAddress deployment)
                 | Malformed \<Rightarrow> Inl SyntaxError
                 | Missing \<Rightarrow> Inl ContractAddressNotFound) of
        Inl e \<Rightarrow> Inl e
      | Inr contractAddress' \<Rightarrow>
          (case contractAddress' of
             None \<Rightarrow> Inl (ContractAddressNotConfigured (network options))
           | Some a \<Rightarrow>
               if a = [] then Inl (ContractAddressNotConfigured (network options))
               else Inr a))"

text \<open>Lines 119 to 126: the wallet account, from the private key in the environment.\<close>

definition setupWallet :: "world \<Rightarrow> exn + string" where
  "setupWallet w =
     (case env_PRIVATE_KEY w of
        None \<Rightarrow> Inl PrivateKeyNotSet
      | Some privateKey \<Rightarrow>
          if privateKey = [] then Inl PrivateKeyNotSet
          else (case privateKeyToAccount w privateKey of
                  Inl err \<Rightarrow> Inl (Propagated err)
                | Inr account \<Rightarrow> Inr account))"

text \<open>Lines 140 to 155: the seal and the journal, from the proof file.\<close>

definition loadProof :: "world \<Rightarrow> string \<Rightarrow> exn + string \<times> string" where
  "loadProof w proofFile' =
     (let proofPath = path_resolve w proofFile' in
      case proofs w proofPath of
        Missing \<Rightarrow> Inl (ProofFileNotFound proofPath)
      | Malformed \<Rightarrow> Inl SyntaxError
      | Parsed proofData \<Rightarrow>
          let zkProof' = or_js (case data proofData of None \<Rightarrow> None | Some d \<Rightarrow> zkProof d)
                               (zkProof proofData);
              journalDataAbi' =
                or_js (case data proofData of None \<Rightarrow> None | Some d \<Rightarrow> journalDataAbi d)
                      (journalDataAbi proofData)
          in if \<not> truthy zkProof' \<or> \<not> truthy journalDataAbi' then Inl InvalidProofFile
             else (case (zkProof', journalDataAbi') of
                     (Some z, Some j) \<Rightarrow> Inr (z, j)
                   | _ \<Rightarrow> Inl InvalidProofFile))"

text \<open>
  Lines 165 to 191: the decode for the log. The log line of the timestamp formats it with
  \<open>new Date(Number(timestamp) * 1000).toISOString()\<close>, which throws a \<open>RangeError\<close> beyond
  8.64e15 milliseconds.
\<close>

definition decodeForLog :: "world \<Rightarrow> string \<Rightarrow> journal io" where
  "decodeForLog w journalDataAbi' =
     (case decodeAbiParameters w journalDataAbi' of
        Inl error' \<Rightarrow>
          ([ConsoleError ''Error decoding journalDataAbi:'' [message error']],
           Inl FailedToDecodeJournalDataAbi)
      | Inr decoded \<Rightarrow>
          if 8640000000000000 < unat (timestamp decoded) * 1000 then ([], Inl RangeError)
          else ([], Inr decoded))"

text \<open>Lines 201 to 229: the simulation.\<close>

definition simulate ::
  "world \<Rightarrow> string \<Rightarrow> string \<Rightarrow> string \<Rightarrow> string \<Rightarrow> string \<Rightarrow> unit io" where
  "simulate w rpcUrl contractAddress' journalData zkProof' account =
     (case simulateContract w rpcUrl contractAddress' journalData zkProof' account of
        None \<Rightarrow> ([SimulateContract contractAddress' journalData zkProof' account], Inr ())
      | Some error' \<Rightarrow>
          (SimulateContract contractAddress' journalData zkProof' account
             # reportFailure w ''Simulation'' error',
           Inl (Propagated error')))"

text \<open>Lines 231 to 257: the transaction.\<close>

definition submit :: "world \<Rightarrow> string \<Rightarrow> string \<Rightarrow> string \<Rightarrow> string \<Rightarrow> string io" where
  "submit w rpcUrl contractAddress' journalData zkProof' =
     (case writeContract w rpcUrl contractAddress' journalData zkProof' of
        Inr hash \<Rightarrow> ([WriteContract contractAddress' journalData zkProof'], Inr hash)
      | Inl error' \<Rightarrow>
          (WriteContract contractAddress' journalData zkProof'
             # reportFailure w ''Submission'' error',
           Inl (Propagated error')))"

text \<open>Lines 259 to 286: the receipt, and the value read back.\<close>

definition confirm :: "world \<Rightarrow> string \<Rightarrow> string \<Rightarrow> string \<Rightarrow> SubmitProofResult io" where
  "confirm w rpcUrl contractAddress' hash =
     (case waitForTransactionReceipt w rpcUrl hash of
        Inl err \<Rightarrow> ([WaitForTransactionReceipt hash], Inl (Propagated err))
      | Inr receipt' \<Rightarrow>
          (case readContract w rpcUrl contractAddress' of
             Inl err \<Rightarrow>
               ([WaitForTransactionReceipt hash, ReadContract contractAddress'],
                Inl (Propagated err))
           | Inr storedBalance' \<Rightarrow>
               ([WaitForTransactionReceipt hash, ReadContract contractAddress'],
                Inr \<lparr> transactionHash = hash,
                      blockNumber = receipt_blockNumber receipt',
                      gasUsed = receipt_gasUsed receipt',
                      storedBalance = storedBalance' \<rparr>)))"

text \<open>\<open>submitProof(options)\<close>\<close>

definition submitProof :: "world \<Rightarrow> SubmitProofOptions \<Rightarrow> SubmitProofResult io" where
  "submitProof w options =
     andThen (quiet (selectRpcUrl w options)) (\<lambda>rpcUrl.
     andThen (quiet (resolveContractAddress w options)) (\<lambda>contractAddress'.
     andThen (quiet (setupWallet w)) (\<lambda>account.
     andThen (quiet (loadProof w (proofFile options))) (\<lambda>(zkProof', journalDataAbi').
     andThen (decodeForLog w journalDataAbi') (\<lambda>decoded.
       let journalData = journalDataAbi' in
       andThen (simulate w rpcUrl contractAddress' journalData zkProof' account) (\<lambda>_.
       andThen (submit w rpcUrl contractAddress' journalData zkProof') (\<lambda>hash.
       confirm w rpcUrl contractAddress' hash)))))))"

subsection \<open>A test world\<close>

text \<open>
  Three proof bundles and doubles for the library: \<open>ok.json\<close> holds the journal of the test
  deployment under the handle \<open>0x01\<close>, \<open>altered.json\<close> the same journal with one bit of its
  queries hash flipped (\<open>0x02\<close>), which the ledger double rejects, and \<open>truncated.json\<close> a
  journal that does not decode. The error that the simulation double throws has the shape
  of the library's contract errors: no \<open>data\<close> of its own, and a \<open>cause\<close> whose \<open>data\<close> is an
  object, not a string. The account double knows one 32-byte key. The error decoder names
  the seven errors of \<open>contractABI\<close> by their selectors and leaves the arguments of
  \<open>Error(string)\<close> and \<open>Panic(uint256)\<close> in their encoding.
\<close>

definition test_proofs :: "string \<Rightarrow> ProofData json_file" where
  "test_proofs proofPath =
     (if proofPath = ''/proofs/ok.json''
      then Parsed \<lparr> zkProof = None, journalDataAbi = None, success = True,
                    data = Some \<lparr> zkProof = Some ''0xAA'', journalDataAbi = Some ''0x01'' \<rparr> \<rparr>
      else if proofPath = ''/proofs/altered.json''
      then Parsed \<lparr> zkProof = Some ''0xAA'', journalDataAbi = Some ''0x02'', success = True,
                    data = None \<rparr>
      else if proofPath = ''/proofs/truncated.json''
      then Parsed \<lparr> zkProof = None, journalDataAbi = None, success = True,
                    data = Some \<lparr> zkProof = Some ''0xAA'', journalDataAbi = Some ''0x1234'' \<rparr> \<rparr>
      else Missing)"

definition test_decodeErrorResult :: "string \<Rightarrow> (string \<times> string list) option" where
  "test_decodeErrorResult revertData =
     (case map_of
        [(''0x282cd3e8'', (''InvalidNotaryKeyFingerprint'', False)),
         (''0x0a07c17d'', (''InvalidQueriesHash'', False)),
         (''0xe7bc872f'', (''InvalidUrl'', False)),
         (''0xc52e3eff'', (''InvalidBalance'', False)),
         (''0x217057cb'', (''ZKProofVerificationFailed'', False)),
         (''0x08c379a0'', (''Error'', True)),
         (''0x4e487b71'', (''Panic'', True))]
        (take 10 revertData) of
        None \<Rightarrow> None
      | Some (errorName, inputs) \<Rightarrow>
          Some (errorName, if inputs then [drop 10 revertData] else []))"

definition test_world :: world where
  "test_world =
     \<lparr> env_SEPOLIA_RPC_URL = None,
       env_PRIVATE_KEY =
         Some ''0xac0974bec39a17e36ba4a6b4d238ff944bacb478cbed5efcae784d7bf4f2ff80'',
       deployments = (\<lambda>network'. Missing),
       path_resolve = (\<lambda>proofFile'. ''/proofs/'' @ proofFile'),
       proofs = test_proofs,
       privateKeyToAccount =
         (\<lambda>privateKey.
            if privateKey = ''0xac0974bec39a17e36ba4a6b4d238ff944bacb478cbed5efcae784d7bf4f2ff80''
            then Inr ''0xf39Fd6e51aad88F6F4ce6aB8827279cffFb92266''
            else Inl (Thrown ''invalid private key'' None None)),
       decodeAbiParameters =
         (\<lambda>journalDataAbi'.
            if journalDataAbi' = ''0x01'' then Inr test_journal
            else if journalDataAbi' = ''0x02''
            then Inr (test_journal\<lparr>queriesHash := queriesHash test_journal + 1\<rparr>)
            else Inl (Thrown ''Data size of 2 bytes is too small for given parameters.''
                        None None)),
       decodeErrorResult = test_decodeErrorResult,
       simulateContract =
         (\<lambda>rpcUrl contractAddress' journalData zkProof' account.
            if journalData = ''0x01'' \<and> zkProof' = ''0xAA'' then None
            else if journalData = ''0x02''
            then Some (Thrown ''The contract function submitBalance reverted. Error: InvalidQueriesHash()''
                         None (Some None))
            else Some (Thrown ''The contract function submitBalance reverted.'' None (Some None))),
       writeContract = (\<lambda>rpcUrl contractAddress' journalData zkProof'. Inr ''0x5c504ed4''),
       waitForTransactionReceipt =
         (\<lambda>rpcUrl hash. Inr \<lparr> receipt_blockNumber = 9000000, receipt_gasUsed = 321000,
                                receipt_status = ''success'' \<rparr>),
       readContract = (\<lambda>rpcUrl contractAddress'. Inr ''123.45'') \<rparr>"

text \<open>
  The same world behind a transport whose errors carry the revert data as a string under
  \<open>data\<close>, as the error object of a JSON-RPC response does. It is the shape that
  \<open>getRevertData\<close> looks for; the library's own contract errors do not have it.
\<close>

definition raw_error_world :: "string \<Rightarrow> world" where
  "raw_error_world revertData =
     test_world\<lparr>simulateContract :=
       (\<lambda>rpcUrl contractAddress' journalData zkProof' account.
          Some (Thrown ''execution reverted'' (Some revertData) None))\<rparr>"

definition test_options :: "string \<Rightarrow> SubmitProofOptions" where
  "test_options proofFile' =
     \<lparr> network = ''sepolia'', proofFile = proofFile',
       overrideAddress = Some ''0x5FbDB2315678afecb367f032d93F642f64180aa3'' \<rparr>"

section \<open>Properties of the validator\<close>

subsection \<open>The prefix loop\<close>

lemma url_loop_in_range:
  "length patternBytes \<le> length urlBytes \<Longrightarrow>
   url_loop urlBytes patternBytes i =
     (if \<forall>k. i \<le> k \<and> k < length patternBytes \<longrightarrow> urlBytes ! k = patternBytes ! k
      then Inr () else Inl InvalidUrl)"
proof (induction urlBytes patternBytes i rule: url_loop.induct)
  case (1 urlBytes patternBytes i)
  note unfold = url_loop.simps [of urlBytes patternBytes i]
  show ?case
  proof (cases "i < length patternBytes")
    case False
    then show ?thesis by (simp add: unfold)
  next
    case True
    with "1.prems" have inr: "\<not> length urlBytes \<le> i" by simp
    show ?thesis
    proof (cases "urlBytes ! i = patternBytes ! i")
      case False
      with True have "\<not> (\<forall>k. i \<le> k \<and> k < length patternBytes \<longrightarrow> urlBytes ! k = patternBytes ! k)"
        by blast
      with True inr False show ?thesis
        by (simp add: unfold)
    next
      case same: True
      have step: "(\<forall>k. i \<le> k \<and> k < length patternBytes \<longrightarrow> urlBytes ! k = patternBytes ! k)
         \<longleftrightarrow> (\<forall>k. i + 1 \<le> k \<and> k < length patternBytes \<longrightarrow> urlBytes ! k = patternBytes ! k)"
      proof (intro iffI allI impI)
        fix k
        assume "\<forall>k. i \<le> k \<and> k < length patternBytes \<longrightarrow> urlBytes ! k = patternBytes ! k"
          and "i + 1 \<le> k \<and> k < length patternBytes"
        then show "urlBytes ! k = patternBytes ! k" by simp
      next
        fix k
        assume rest: "\<forall>k. i + 1 \<le> k \<and> k < length patternBytes \<longrightarrow> urlBytes ! k = patternBytes ! k"
          and k: "i \<le> k \<and> k < length patternBytes"
        show "urlBytes ! k = patternBytes ! k"
        proof (cases "k = i")
          case True
          with same show ?thesis by simp
        next
          case False
          with k have "i + 1 \<le> k \<and> k < length patternBytes" by simp
          with rest show ?thesis by blast
        qed
      qed
      have "url_loop urlBytes patternBytes i = url_loop urlBytes patternBytes (i + 1)"
        using True inr same by (simp add: unfold)
      also have "\<dots> = (if \<forall>k. i + 1 \<le> k \<and> k < length patternBytes \<longrightarrow> urlBytes ! k = patternBytes ! k
                       then Inr () else Inl InvalidUrl)"
        using "1.IH" True inr same "1.prems" by simp
      finally show ?thesis
        by (simp only: step)
    qed
  qed
qed

lemma take_eq_iff_nth:
  "length p \<le> length u \<Longrightarrow> (take (length p) u = p) \<longleftrightarrow> (\<forall>k < length p. u ! k = p ! k)"
  by (auto simp add: list_eq_iff_nth_eq)

lemma url_loop_prefix:
  "length p \<le> length u \<Longrightarrow>
   url_loop u p 0 = (if take (length p) u = p then Inr () else Inl InvalidUrl)"
  by (simp add: url_loop_in_range take_eq_iff_nth)

subsection \<open>The checks in order\<close>

text \<open>The function after a successful decode, with the loop replaced by its meaning.\<close>

lemma submitBalance_decoded:
  assumes "abi_decode m journalData = Some j"
  shows "submitBalance m journalData seal s =
    (if notaryKeyFingerprint j \<noteq> EXPECTED_NOTARY_KEY_FINGERPRINT s
     then (Inl InvalidNotaryKeyFingerprint, s)
     else if keccak256 m (method j) \<noteq> keccak256 m ''GET'' then (Inl InvalidUrl, s)
     else if queriesHash j \<noteq> EXPECTED_QUERIES_HASH s then (Inl InvalidQueriesHash, s)
     else if length (url j) < length (expectedUrlPattern s)
             \<or> take (length (expectedUrlPattern s)) (url j) \<noteq> expectedUrlPattern s
     then (Inl InvalidUrl, s)
     else if balance' j = [] then (Inl InvalidBalance, s)
     else
       (case verify m (VERIFIER s) seal (IMAGE_ID s) (sha256 m journalData) of
          NoCode \<Rightarrow> (Inl NoCodeRevert, s)
        | Reverted cause \<Rightarrow>
            (Inl ZKProofVerificationFailed,
             s\<lparr>calls := calls s @ [Verify (VERIFIER s) seal (IMAGE_ID s) (sha256 m journalData)]\<rparr>)
        | Returned \<Rightarrow>
            (Inr (),
             s\<lparr>calls := calls s @ [Verify (VERIFIER s) seal (IMAGE_ID s) (sha256 m journalData)],
               balance := balance' j,
               events := events s @
                 [BalanceVerified (balance' j) (url j) (timestamp j) (block_number m)]\<rparr>)))"
  using assms
  by (simp add: submitBalance_def try_verify_def Let_def url_loop_prefix not_less
      split: call_result.split)

lemma submitBalance_undecoded:
  "abi_decode m journalData = None \<Longrightarrow> submitBalance m journalData seal s = (Inl AbiDecodeRevert, s)"
  by (simp add: submitBalance_def)

text \<open>
  What the function can fail with: the bounds check of the loop never fires, since the
  length test comes first.
\<close>

lemma submitBalance_failure_kinds:
  assumes "submitBalance m journalData seal s = (Inl e, s')"
  shows "e \<in> {AbiDecodeRevert, InvalidNotaryKeyFingerprint, InvalidQueriesHash, InvalidUrl,
              InvalidBalance, ZKProofVerificationFailed, NoCodeRevert}"
proof (cases "abi_decode m journalData")
  case None
  with assms show ?thesis by (auto simp add: submitBalance_undecoded)
next
  case (Some j)
  with assms show ?thesis
    by (auto simp add: submitBalance_decoded split: if_splits call_result.splits)
qed

subsection \<open>Acceptance and rejection\<close>

lemmas test_defs =
  test_evm_def test_vectors_def test_journal_def test_keccak256_def test_hash_def test_verify_def
  test_contract_def constructor_def

text \<open>
  C1. A journal that decodes, carries the expected notary fingerprint, the method \<open>GET\<close>, the
  expected queries hash, a URL that starts with the expected prefix and a non-empty value,
  and whose seal the verifier accepts for the image id and the SHA-256 digest of the journal
  bytes, is accepted: afterwards \<open>balance\<close> is the extracted value, and one event has been
  appended, carrying the value, the URL, the timestamp and the current block number.
\<close>

theorem submitBalance_accepts:
  assumes "abi_decode m journalData = Some j"
    and "notaryKeyFingerprint j = EXPECTED_NOTARY_KEY_FINGERPRINT s"
    and "method j = ''GET''"
    and "queriesHash j = EXPECTED_QUERIES_HASH s"
    and "length (expectedUrlPattern s) \<le> length (url j)"
    and "take (length (expectedUrlPattern s)) (url j) = expectedUrlPattern s"
    and "balance' j \<noteq> []"
    and "verify m (VERIFIER s) seal (IMAGE_ID s) (sha256 m journalData) = Returned"
  shows "\<exists>s'. submitBalance m journalData seal s = (Inr (), s')
           \<and> balance s' = balance' j
           \<and> events s' = events s @
                [BalanceVerified (balance' j) (url j) (timestamp j) (block_number m)]"
  using assms by (simp add: submitBalance_decoded)

theorem submitBalance_accepts_witness:
  "\<exists>s'. submitBalance test_evm ''journal'' [CHR 0xAA] test_contract = (Inr (), s')
      \<and> balance s' = ''123.45''
      \<and> events s' = [BalanceVerified ''123.45'' ''https://api.example.com/v2?x=1'' 1700000000 9000000]"
  using submitBalance_accepts [of test_evm "''journal''" test_journal test_contract "[CHR 0xAA]"]
  by (simp add: test_defs)

text \<open>
  C2. A failing \<open>submitBalance\<close>, whatever it fails with (the decode revert, one of the five
  named errors, or the revert of a call to a verifier address without code), leaves the
  stored balance, the event log and every other variable of the contract as they were at
  the point where it reverts; a successful one has both written the value and emitted the
  event.
\<close>

theorem submitBalance_all_or_nothing:
  "(submitBalance m journalData seal s = (Inl e, s') \<longrightarrow>
      balance s' = balance s \<and> events s' = events s
      \<and> EtherscanVerifier.truncate s' = EtherscanVerifier.truncate s)
   \<and> (submitBalance m journalData seal s = (Inr (), s') \<longrightarrow>
      (\<exists>j. abi_decode m journalData = Some j
         \<and> balance s' = balance' j
         \<and> events s' = events s @
              [BalanceVerified (balance' j) (url j) (timestamp j) (block_number m)]))"
proof (cases "abi_decode m journalData")
  case None
  then show ?thesis by (auto simp add: submitBalance_undecoded)
next
  case (Some j)
  then show ?thesis
    by (auto simp add: submitBalance_decoded EtherscanVerifier.truncate_def
        split: if_splits call_result.splits)
qed

theorem submitBalance_all_or_nothing_witness:
  "submitBalance test_evm ''journal'' ''bad seal'' test_contract =
     (Inl ZKProofVerificationFailed,
      test_contract\<lparr>calls := [Verify (VERIFIER test_contract) ''bad seal'' 0x1234
                                 (test_hash ''journal'')]\<rparr>)
   \<and> balance (test_contract\<lparr>calls := [Verify (VERIFIER test_contract) ''bad seal'' 0x1234
                                 (test_hash ''journal'')]\<rparr>) = balance test_contract
   \<and> events (test_contract\<lparr>calls := [Verify (VERIFIER test_contract) ''bad seal'' 0x1234
                                 (test_hash ''journal'')]\<rparr>) = events test_contract
   \<and> submitBalance test_evm ''not a journal'' [CHR 0xAA] test_contract =
        (Inl AbiDecodeRevert, test_contract)
   \<and> submitBalance test_evm ''journal'' [CHR 0xAA] (test_contract\<lparr>VERIFIER := 0xDEAD\<rparr>) =
        (Inl NoCodeRevert, test_contract\<lparr>VERIFIER := 0xDEAD\<rparr>)"
  using submitBalance_all_or_nothing [of test_evm "''journal''" "''bad seal''" test_contract
      ZKProofVerificationFailed
      "test_contract\<lparr>calls := [Verify (VERIFIER test_contract) ''bad seal'' 0x1234
                                 (test_hash ''journal'')]\<rparr>"]
  by (simp add: submitBalance_decoded submitBalance_undecoded test_evm_def test_vectors_def
      test_journal_def test_verify_def test_contract_def constructor_def)

text \<open>
  C3. When the five local checks pass and the verifier address holds code, the verifier is
  called once, with the seal, the image id and the SHA-256 digest of the journal bytes as
  they were received, and the outcome is decided by that call: success when it returns,
  and, whatever payload it reverts with, \<open>ZKProofVerificationFailed\<close>, which carries nothing
  of the payload.
\<close>

theorem verifier_call_and_uniform_failure:
  assumes "abi_decode m journalData = Some j"
    and "notaryKeyFingerprint j = EXPECTED_NOTARY_KEY_FINGERPRINT s"
    and "method j = ''GET''"
    and "queriesHash j = EXPECTED_QUERIES_HASH s"
    and "length (expectedUrlPattern s) \<le> length (url j)"
    and "take (length (expectedUrlPattern s)) (url j) = expectedUrlPattern s"
    and "balance' j \<noteq> []"
    and "verify m (VERIFIER s) seal (IMAGE_ID s) (sha256 m journalData) \<noteq> NoCode"
  shows "calls (snd (submitBalance m journalData seal s)) =
           calls s @ [Verify (VERIFIER s) seal (IMAGE_ID s) (sha256 m journalData)]
         \<and> (verify m (VERIFIER s) seal (IMAGE_ID s) (sha256 m journalData) = Returned
               \<longrightarrow> fst (submitBalance m journalData seal s) = Inr ())
         \<and> (\<forall>cause. verify m (VERIFIER s) seal (IMAGE_ID s) (sha256 m journalData) = Reverted cause
               \<longrightarrow> fst (submitBalance m journalData seal s) = Inl ZKProofVerificationFailed)"
  using assms by (simp add: submitBalance_decoded split: call_result.split)

theorem verifier_call_and_uniform_failure_witness:
  "calls (snd (submitBalance test_evm ''journal'' ''bad seal'' test_contract)) =
     [Verify 0x925D8331DDC0A1F0D96E68CF073DFE1D92B69187 ''bad seal'' 0x1234 (test_hash ''journal'')]
   \<and> verify test_evm (VERIFIER test_contract) ''bad seal'' (IMAGE_ID test_contract)
        (sha256 test_evm ''journal'') = Reverted ''VerificationFailed()''
   \<and> fst (submitBalance test_evm ''journal'' ''bad seal'' test_contract)
        = Inl ZKProofVerificationFailed
   \<and> calls (snd (submitBalance test_evm ''journal'' [CHR 0xAA] test_contract)) =
     [Verify 0x925D8331DDC0A1F0D96E68CF073DFE1D92B69187 [CHR 0xAA] 0x1234 (test_hash ''journal'')]
   \<and> verify test_evm (VERIFIER test_contract) [CHR 0xAA] (IMAGE_ID test_contract)
        (sha256 test_evm ''journal'') = Returned
   \<and> fst (submitBalance test_evm ''journal'' [CHR 0xAA] test_contract) = Inr ()"
  using verifier_call_and_uniform_failure
    [of test_evm "''journal''" test_journal test_contract "''bad seal''"]
    verifier_call_and_uniform_failure
    [of test_evm "''journal''" test_journal test_contract "[CHR 0xAA]"]
  by (simp add: test_evm_def test_vectors_def test_journal_def test_verify_def
      test_contract_def constructor_def)

text \<open>
  A deployment whose verifier address holds no code: the same journal and seal pass the
  five local checks, no call is made, and the failure is not \<open>ZKProofVerificationFailed\<close>.
\<close>

theorem verifier_without_code_counterexample:
  "abi_decode test_evm ''journal'' = Some test_journal
   \<and> notaryKeyFingerprint test_journal
        = EXPECTED_NOTARY_KEY_FINGERPRINT (test_contract\<lparr>VERIFIER := 0xDEAD\<rparr>)
   \<and> method test_journal = ''GET''
   \<and> queriesHash test_journal = EXPECTED_QUERIES_HASH (test_contract\<lparr>VERIFIER := 0xDEAD\<rparr>)
   \<and> take (length (expectedUrlPattern (test_contract\<lparr>VERIFIER := 0xDEAD\<rparr>))) (url test_journal)
        = expectedUrlPattern (test_contract\<lparr>VERIFIER := 0xDEAD\<rparr>)
   \<and> balance' test_journal \<noteq> []
   \<and> submitBalance test_evm ''journal'' [CHR 0xAA] (test_contract\<lparr>VERIFIER := 0xDEAD\<rparr>)
        = (Inl NoCodeRevert, test_contract\<lparr>VERIFIER := 0xDEAD\<rparr>)
   \<and> calls (snd (submitBalance test_evm ''journal'' [CHR 0xAA]
                   (test_contract\<lparr>VERIFIER := 0xDEAD\<rparr>))) = []"
  by (simp add: submitBalance_decoded test_evm_def test_vectors_def test_journal_def
      test_verify_def test_contract_def constructor_def)

text \<open>
  C4. A journal whose notary fingerprint differs from the expected one is rejected with
  \<open>InvalidNotaryKeyFingerprint\<close>, whatever its other fields are.
\<close>

theorem wrong_notary_fingerprint_rejected:
  assumes "abi_decode m journalData = Some j"
    and "notaryKeyFingerprint j \<noteq> EXPECTED_NOTARY_KEY_FINGERPRINT s"
  shows "submitBalance m journalData seal s = (Inl InvalidNotaryKeyFingerprint, s)"
  using assms by (simp add: submitBalance_decoded)

theorem wrong_notary_fingerprint_rejected_witness:
  "submitBalance test_evm ''journal-all-wrong'' [CHR 0xAA] test_contract
     = (Inl InvalidNotaryKeyFingerprint, test_contract)
   \<and> submitBalance test_evm ''journal'' [CHR 0xAA]
        (test_contract\<lparr>EXPECTED_NOTARY_KEY_FINGERPRINT := 1\<rparr>)
     = (Inl InvalidNotaryKeyFingerprint, test_contract\<lparr>EXPECTED_NOTARY_KEY_FINGERPRINT := 1\<rparr>)"
  using wrong_notary_fingerprint_rejected
    [of test_evm "''journal-all-wrong''"
        "\<lparr> notaryKeyFingerprint = 0, method = ''POST'', url = [], timestamp = 0,
           queriesHash = 0, balance' = [] \<rparr>" test_contract "[CHR 0xAA]"]
    wrong_notary_fingerprint_rejected
    [of test_evm "''journal''" test_journal "test_contract\<lparr>EXPECTED_NOTARY_KEY_FINGERPRINT := 1\<rparr>"
        "[CHR 0xAA]"]
  by (simp add: test_evm_def test_vectors_def test_journal_def test_contract_def constructor_def)

text \<open>
  C5. A journal with the expected notary fingerprint and a method other than \<open>GET\<close> is
  rejected with \<open>InvalidUrl\<close>. The contract compares Keccak-256 digests, so the statement
  holds for every method whose digest does not collide with that of \<open>GET\<close>.
\<close>

theorem method_not_GET_rejected:
  assumes "abi_decode m journalData = Some j"
    and "notaryKeyFingerprint j = EXPECTED_NOTARY_KEY_FINGERPRINT s"
    and "method j \<noteq> ''GET''"
    and "inj_on (keccak256 m) {method j, ''GET''}"
  shows "submitBalance m journalData seal s = (Inl InvalidUrl, s)"
  using assms by (auto simp add: submitBalance_decoded inj_on_def)

theorem method_not_GET_rejected_witness:
  "submitBalance test_evm ''journal-get'' [CHR 0xAA] test_contract = (Inl InvalidUrl, test_contract)
   \<and> submitBalance test_evm ''journal-POST'' [CHR 0xAA] test_contract = (Inl InvalidUrl, test_contract)"
  using method_not_GET_rejected
    [of test_evm "''journal-get''" "test_journal\<lparr>method := ''get''\<rparr>" test_contract "[CHR 0xAA]"]
    method_not_GET_rejected
    [of test_evm "''journal-POST''" "test_journal\<lparr>method := ''POST''\<rparr>" test_contract "[CHR 0xAA]"]
  by (simp add: test_evm_def test_vectors_def test_journal_def test_keccak256_def
      test_contract_def constructor_def)

text \<open>
  C6. After the notary, method and queries hash checks: a URL at least as long as the
  expected prefix and equal to it on its leading bytes passes the URL check, so that the
  outcome is that of the value check and of the call to the verifier; a URL that is shorter than
  the prefix or differs from it at some position within the prefix is rejected with
  \<open>InvalidUrl\<close>.
\<close>

theorem url_prefix_check:
  assumes "abi_decode m journalData = Some j"
    and "notaryKeyFingerprint j = EXPECTED_NOTARY_KEY_FINGERPRINT s"
    and "method j = ''GET''"
    and "queriesHash j = EXPECTED_QUERIES_HASH s"
  shows "(length (expectedUrlPattern s) \<le> length (url j)
            \<and> take (length (expectedUrlPattern s)) (url j) = expectedUrlPattern s
          \<longrightarrow> fst (submitBalance m journalData seal s) =
                (if balance' j = [] then Inl InvalidBalance
                 else case verify m (VERIFIER s) seal (IMAGE_ID s) (sha256 m journalData) of
                        Returned \<Rightarrow> Inr ()
                      | Reverted cause \<Rightarrow> Inl ZKProofVerificationFailed
                      | NoCode \<Rightarrow> Inl NoCodeRevert))
       \<and> (length (url j) < length (expectedUrlPattern s)
            \<or> (\<exists>k < length (expectedUrlPattern s). url j ! k \<noteq> expectedUrlPattern s ! k)
          \<longrightarrow> submitBalance m journalData seal s = (Inl InvalidUrl, s))"
proof (intro conjI impI)
  assume "length (expectedUrlPattern s) \<le> length (url j)
            \<and> take (length (expectedUrlPattern s)) (url j) = expectedUrlPattern s"
  with assms show "fst (submitBalance m journalData seal s) =
                (if balance' j = [] then Inl InvalidBalance
                 else case verify m (VERIFIER s) seal (IMAGE_ID s) (sha256 m journalData) of
                        Returned \<Rightarrow> Inr ()
                      | Reverted cause \<Rightarrow> Inl ZKProofVerificationFailed
                      | NoCode \<Rightarrow> Inl NoCodeRevert)"
    by (simp add: submitBalance_decoded split: call_result.split)
next
  assume bad: "length (url j) < length (expectedUrlPattern s)
            \<or> (\<exists>k < length (expectedUrlPattern s). url j ! k \<noteq> expectedUrlPattern s ! k)"
  have "length (url j) < length (expectedUrlPattern s)
        \<or> take (length (expectedUrlPattern s)) (url j) \<noteq> expectedUrlPattern s"
  proof (cases "length (url j) < length (expectedUrlPattern s)")
    case True
    then show ?thesis by simp
  next
    case False
    then have "length (expectedUrlPattern s) \<le> length (url j)" by simp
    with bad False show ?thesis by (simp add: take_eq_iff_nth)
  qed
  with assms show "submitBalance m journalData seal s = (Inl InvalidUrl, s)"
    by (simp add: submitBalance_decoded)
qed

theorem url_prefix_check_witness:
  "length ''https://api.example.com/v2'' \<le> length ''https://api.example.com/v2?x=1''
   \<and> take (length ''https://api.example.com/v2'') ''https://api.example.com/v2?x=1''
        = ''https://api.example.com/v2''
   \<and> fst (submitBalance test_evm ''journal'' [CHR 0xAA] test_contract) = Inr ()
   \<and> ''https://api.example.org/v2?x=1'' ! 20 \<noteq> ''https://api.example.com/v2'' ! 20
   \<and> submitBalance test_evm ''journal-other-host'' [CHR 0xAA] test_contract
        = (Inl InvalidUrl, test_contract)
   \<and> length ''https://api'' < length ''https://api.example.com/v2''
   \<and> submitBalance test_evm ''journal-short-url'' [CHR 0xAA] test_contract
        = (Inl InvalidUrl, test_contract)"
proof -
  have d: "''https://api.example.org/v2?x=1'' ! 20 \<noteq> ''https://api.example.com/v2'' ! 20"
    by simp
  then have ex: "\<exists>k < length ''https://api.example.com/v2''.
      ''https://api.example.org/v2?x=1'' ! k \<noteq> ''https://api.example.com/v2'' ! k"
    by (intro exI [of _ 20]) simp
  from d ex
    url_prefix_check [of test_evm "''journal''" test_journal test_contract "[CHR 0xAA]"]
    url_prefix_check [of test_evm "''journal-other-host''"
      "test_journal\<lparr>url := ''https://api.example.org/v2?x=1''\<rparr>" test_contract "[CHR 0xAA]"]
    url_prefix_check [of test_evm "''journal-short-url''"
      "test_journal\<lparr>url := ''https://api''\<rparr>" test_contract "[CHR 0xAA]"]
  show ?thesis
    by (simp add: test_evm_def test_vectors_def test_journal_def test_verify_def
        test_contract_def constructor_def)
qed

text \<open>
  C7. A journal that passes the notary, method, queries hash and URL checks and has an
  empty value is rejected with \<open>InvalidBalance\<close> without a call to the verifier; and the
  verifier has been called only if all five local checks passed.
\<close>

theorem empty_value_rejected_before_verification:
  "(abi_decode m journalData = Some j
      \<and> notaryKeyFingerprint j = EXPECTED_NOTARY_KEY_FINGERPRINT s
      \<and> method j = ''GET''
      \<and> queriesHash j = EXPECTED_QUERIES_HASH s
      \<and> length (expectedUrlPattern s) \<le> length (url j)
      \<and> take (length (expectedUrlPattern s)) (url j) = expectedUrlPattern s
      \<and> balance' j = []
    \<longrightarrow> submitBalance m journalData seal s = (Inl InvalidBalance, s)
        \<and> calls (snd (submitBalance m journalData seal s)) = calls s)
   \<and> (calls (snd (submitBalance m journalData seal s)) \<noteq> calls s
    \<longrightarrow> (\<exists>j. abi_decode m journalData = Some j
          \<and> notaryKeyFingerprint j = EXPECTED_NOTARY_KEY_FINGERPRINT s
          \<and> keccak256 m (method j) = keccak256 m ''GET''
          \<and> queriesHash j = EXPECTED_QUERIES_HASH s
          \<and> length (expectedUrlPattern s) \<le> length (url j)
          \<and> take (length (expectedUrlPattern s)) (url j) = expectedUrlPattern s
          \<and> balance' j \<noteq> []))"
proof (cases "abi_decode m journalData")
  case None
  then show ?thesis by (simp add: submitBalance_undecoded)
next
  case (Some j')
  then show ?thesis
    by (auto simp add: submitBalance_decoded split: if_splits call_result.splits)
qed

theorem empty_value_rejected_before_verification_witness:
  "submitBalance test_evm ''journal-no-value'' [CHR 0xAA] test_contract
     = (Inl InvalidBalance, test_contract)
   \<and> verify test_evm (VERIFIER test_contract) [CHR 0xAA] (IMAGE_ID test_contract)
        (sha256 test_evm ''journal-no-value'') = Returned
   \<and> calls (snd (submitBalance test_evm ''journal-no-value'' [CHR 0xAA] test_contract)) = []
   \<and> calls (snd (submitBalance test_evm ''journal'' [CHR 0xAA] test_contract)) \<noteq> calls test_contract
   \<and> abi_decode test_evm ''journal'' = Some test_journal"
  using empty_value_rejected_before_verification
    [of test_evm "''journal-no-value''" "test_journal\<lparr>balance' := []\<rparr>" test_contract "[CHR 0xAA]"]
    empty_value_rejected_before_verification
    [of test_evm "''journal''" test_journal test_contract "[CHR 0xAA]"]
  by (simp add: submitBalance_decoded test_evm_def test_vectors_def test_journal_def test_verify_def
      test_contract_def constructor_def)

text \<open>
  C10. The outcome of \<open>submitBalance\<close> does not depend on the stored balance, the event log
  or the block number, nor on the timestamp of the journal: in any two states of the same
  deployment the same submission has the same outcome, replacing the decoded timestamp by
  any other leaves the outcome unchanged, and a submission accepted once is accepted again
  in every later state of the deployment, storing the same value and emitting the same
  event at the new block number.
\<close>

theorem no_replay_or_freshness_protection:
  assumes "VERIFIER later = VERIFIER s" and "IMAGE_ID later = IMAGE_ID s"
    and "EXPECTED_NOTARY_KEY_FINGERPRINT later = EXPECTED_NOTARY_KEY_FINGERPRINT s"
    and "EXPECTED_QUERIES_HASH later = EXPECTED_QUERIES_HASH s"
    and "expectedUrlPattern later = expectedUrlPattern s"
  shows "fst (submitBalance (m\<lparr>block_number := b\<rparr>) journalData seal later)
           = fst (submitBalance m journalData seal s)
       \<and> (abi_decode m journalData = Some j \<longrightarrow>
            fst (submitBalance (m\<lparr>abi_decode := (abi_decode m)(journalData \<mapsto> j\<lparr>timestamp := t\<rparr>)\<rparr>)
                   journalData seal s)
              = fst (submitBalance m journalData seal s))
       \<and> (submitBalance m journalData seal s = (Inr (), first) \<longrightarrow>
            (\<exists>j s'. abi_decode m journalData = Some j
               \<and> balance first = balance' j
               \<and> submitBalance (m\<lparr>block_number := b\<rparr>) journalData seal later = (Inr (), s')
               \<and> balance s' = balance' j
               \<and> events s' = events later @
                    [BalanceVerified (balance' j) (url j) (timestamp j) b]))"
proof (cases "abi_decode m journalData")
  case None
  then show ?thesis by (simp add: submitBalance_undecoded)
next
  case (Some j')
  have one: "fst (submitBalance (m\<lparr>block_number := b\<rparr>) journalData seal later)
           = fst (submitBalance m journalData seal s)"
    using Some assms by (simp add: submitBalance_decoded split: call_result.split)
  have two: "abi_decode m journalData = Some j \<longrightarrow>
            fst (submitBalance (m\<lparr>abi_decode := (abi_decode m)(journalData \<mapsto> j\<lparr>timestamp := t\<rparr>)\<rparr>)
                   journalData seal s)
              = fst (submitBalance m journalData seal s)"
    by (simp add: submitBalance_decoded split: call_result.split)
  have three: "submitBalance m journalData seal s = (Inr (), first) \<longrightarrow>
            (\<exists>j s'. abi_decode m journalData = Some j
               \<and> balance first = balance' j
               \<and> submitBalance (m\<lparr>block_number := b\<rparr>) journalData seal later = (Inr (), s')
               \<and> balance s' = balance' j
               \<and> events s' = events later @
                    [BalanceVerified (balance' j) (url j) (timestamp j) b])"
    using Some assms
    by (auto simp add: submitBalance_decoded split: if_splits call_result.splits)
  from one two three show ?thesis by blast
qed

theorem no_replay_or_freshness_protection_witness:
  "(\<exists>s1 s3. submitBalance test_evm ''journal'' [CHR 0xAA] test_contract = (Inr (), s1)
      \<and> balance s1 = ''123.45''
      \<and> submitBalance (test_evm\<lparr>block_number := 9999999\<rparr>) ''journal'' [CHR 0xAA] s1 = (Inr (), s3)
      \<and> balance s3 = ''123.45''
      \<and> events s3 =
          [BalanceVerified ''123.45'' ''https://api.example.com/v2?x=1'' 1700000000 9000000,
           BalanceVerified ''123.45'' ''https://api.example.com/v2?x=1'' 1700000000 9999999])
   \<and> fst (submitBalance
           (test_evm\<lparr>abi_decode := (abi_decode test_evm)(''journal'' \<mapsto> test_journal\<lparr>timestamp := 0\<rparr>)\<rparr>)
           ''journal'' [CHR 0xAA] test_contract) = Inr ()"
proof -
  define s1 where "s1 = snd (submitBalance test_evm ''journal'' [CHR 0xAA] test_contract)"
  have run: "submitBalance test_evm ''journal'' [CHR 0xAA] test_contract = (Inr (), s1)"
    unfolding s1_def
    by (simp add: submitBalance_decoded test_evm_def test_vectors_def test_journal_def
        test_verify_def test_contract_def constructor_def)
  have cfg: "VERIFIER s1 = VERIFIER test_contract" "IMAGE_ID s1 = IMAGE_ID test_contract"
    "EXPECTED_NOTARY_KEY_FINGERPRINT s1 = EXPECTED_NOTARY_KEY_FINGERPRINT test_contract"
    "EXPECTED_QUERIES_HASH s1 = EXPECTED_QUERIES_HASH test_contract"
    "expectedUrlPattern s1 = expectedUrlPattern test_contract"
    and ev: "events s1 = [BalanceVerified ''123.45'' ''https://api.example.com/v2?x=1'' 1700000000 9000000]"
    unfolding s1_def
    by (simp_all add: submitBalance_decoded test_evm_def test_vectors_def test_journal_def
        test_verify_def test_contract_def constructor_def)
  have dec: "abi_decode test_evm ''journal'' = Some test_journal"
    by (simp add: test_evm_def test_vectors_def)
  from no_replay_or_freshness_protection
      [where later = s1 and s = test_contract and m = test_evm and b = 9999999
         and journalData = "''journal''" and seal = "[CHR 0xAA]" and j = test_journal
         and t = 0 and first = s1, OF cfg]
    run dec ev
  show ?thesis
    by (auto simp add: test_journal_def)
qed

section \<open>Properties of the submission client\<close>

lemmas client_defs = submitProof_def andThen_def quiet_def selectRpcUrl_def getNetworkConfig_def toLowerCase_def
  or_js_def truthy_def resolveContractAddress_def setupWallet_def loadProof_def decodeForLog_def
  simulate_def submit_def confirm_def reportFailure_def getRevertData_def
lemmas world_defs = test_world_def test_options_def test_proofs_def test_decodeErrorResult_def
  test_journal_def

text \<open>Either the client stops before the simulation, having at most written to the console,
  or it comes to the simulation with the values the earlier steps produced.\<close>

lemma submitProof_stages:
  "(\<exists>es e. submitProof w options = (es, Inl e) \<and> (\<forall>x \<in> set es. \<exists>l as. x = ConsoleError l as))
   \<or> (\<exists>rpcUrl a acct z jd d.
        selectRpcUrl w options = Inr rpcUrl
      \<and> resolveContractAddress w options = Inr a
      \<and> setupWallet w = Inr acct
      \<and> loadProof w (proofFile options) = Inr (z, jd)
      \<and> decodeAbiParameters w jd = Inr d
      \<and> submitProof w options =
         andThen (simulate w rpcUrl a jd z acct) (\<lambda>_.
         andThen (submit w rpcUrl a jd z) (\<lambda>hash. confirm w rpcUrl a hash)))"
  by (auto simp add: submitProof_def andThen_def quiet_def decodeForLog_def
      split: sum.splits prod.splits if_splits)


lemma reportFailure_console:
  "\<forall>x \<in> set (reportFailure w what err). \<exists>l as. x = ConsoleError l as"
  by (auto simp add: reportFailure_def Let_def split: option.splits)

lemma simulation_failed:
  "simulateContract w rpcUrl a jd z acct = Some err \<Longrightarrow>
   andThen (simulate w rpcUrl a jd z acct) k =
     (SimulateContract a jd z acct # reportFailure w ''Simulation'' err, Inl (Propagated err))"
  by (simp add: andThen_def simulate_def)

lemma simulation_passed:
  "simulateContract w rpcUrl a jd z acct = None \<Longrightarrow>
   fst (andThen (simulate w rpcUrl a jd z acct) (\<lambda>_.
          andThen (submit w rpcUrl a jd z) (\<lambda>hash. confirm w rpcUrl a hash)))
     = SimulateContract a jd z acct # WriteContract a jd z #
         (case writeContract w rpcUrl a jd z of
            Inl err \<Rightarrow> reportFailure w ''Submission'' err
          | Inr hash \<Rightarrow> fst (confirm w rpcUrl a hash))"
  by (simp add: andThen_def simulate_def submit_def split: sum.split prod.split)

lemma confirm_effects:
  "x \<in> set (fst (confirm w rpcUrl a hash)) \<Longrightarrow>
   x = WaitForTransactionReceipt hash \<or> x = ReadContract a"
  by (auto simp add: confirm_def split: sum.splits)


text \<open>The report, by the shape of the error object.\<close>

lemma reportFailure_with_data:
  assumes "top_data err = Some d \<or> top_data err = None \<and> cause_data err = Some (Some d)"
    and "d \<noteq> []"
  shows "reportFailure w what err =
     (case decodeErrorResult w d of
        Some (errorName, args) \<Rightarrow>
          [ConsoleError (cross @ '' '' @ what @ '' failed: '' @ errorName) args]
      | None \<Rightarrow>
          [ConsoleError (cross @ '' '' @ what @ '' failed:'') [message err],
           ConsoleError ''Revert data:'' [d]])"
  using assms
  by (auto simp add: reportFailure_def getRevertData_def split: option.splits)

lemma reportFailure_without_data:
  assumes "top_data err = Some []
     \<or> top_data err = None
        \<and> (cause_data err = None \<or> cause_data err = Some None \<or> cause_data err = Some (Some []))"
  shows "reportFailure w what err =
     [ConsoleError (cross @ '' '' @ what @ '' failed:'') [message err]]"
  using assms
  by (auto simp add: reportFailure_def getRevertData_def split: option.splits)

lemma effects_after_simulation:
  assumes "simulateContract w rpcUrl a jd z acct = None"
    and "x \<in> set (fst (andThen (simulate w rpcUrl a jd z acct) (\<lambda>_.
          andThen (submit w rpcUrl a jd z) (\<lambda>hash. confirm w rpcUrl a hash))))"
  shows "x = SimulateContract a jd z acct \<or> x = WriteContract a jd z
         \<or> (\<exists>l as. x = ConsoleError l as) \<or> (\<exists>h. x = WaitForTransactionReceipt h)
         \<or> (\<exists>c. x = ReadContract c)"
proof (cases "writeContract w rpcUrl a jd z")
  case (Inl err)
  with assms have "x = SimulateContract a jd z acct \<or> x = WriteContract a jd z
      \<or> x \<in> set (reportFailure w ''Submission'' err)"
    by (simp add: simulation_passed)
  with reportFailure_console [of w "''Submission''" err] show ?thesis by blast
next
  case (Inr hash)
  with assms have "x = SimulateContract a jd z acct \<or> x = WriteContract a jd z
      \<or> x \<in> set (fst (confirm w rpcUrl a hash))"
    by (simp add: simulation_passed)
  with confirm_effects [of x w rpcUrl a hash] show ?thesis by blast
qed


text \<open>
  C8. The client sends the transaction only after a simulation of the same call has
  succeeded. When the simulation fails, the client reports the failure, rethrows the error
  of the simulation, and sends no transaction. The report depends on the error object:
  when it carries revert data as a non-empty string, under \<open>data\<close> or else under
  \<open>cause.data\<close>, the report is the name of the error if that data decodes against the ABI,
  and the message followed by the raw revert data if it does not; when it carries no such
  string, the report is the message alone.
\<close>

theorem simulation_failure_blocks_submission:
  "(WriteContract a jd z \<in> set (fst (submitProof w options)) \<longrightarrow>
      (\<exists>rpcUrl acct later. selectRpcUrl w options = Inr rpcUrl
         \<and> simulateContract w rpcUrl a jd z acct = None
         \<and> fst (submitProof w options) =
               SimulateContract a jd z acct # WriteContract a jd z # later))
   \<and> (selectRpcUrl w options = Inr rpcUrl
       \<and> SimulateContract a jd z acct \<in> set (fst (submitProof w options))
       \<and> simulateContract w rpcUrl a jd z acct = Some err \<longrightarrow>
        submitProof w options =
          (SimulateContract a jd z acct # reportFailure w ''Simulation'' err,
           Inl (Propagated err))
        \<and> (\<forall>a' jd' z'. WriteContract a' jd' z' \<notin> set (fst (submitProof w options)))
        \<and> (\<forall>d. (top_data err = Some d \<or> top_data err = None \<and> cause_data err = Some (Some d))
                \<and> d \<noteq> []
              \<longrightarrow> reportFailure w ''Simulation'' err =
                    (case decodeErrorResult w d of
                       Some (errorName, args) \<Rightarrow>
                         [ConsoleError (cross @ '' Simulation failed: '' @ errorName) args]
                     | None \<Rightarrow>
                         [ConsoleError (cross @ '' Simulation failed:'') [message err],
                          ConsoleError ''Revert data:'' [d]]))
        \<and> (top_data err = Some []
             \<or> top_data err = None
                \<and> (cause_data err = None \<or> cause_data err = Some None
                     \<or> cause_data err = Some (Some []))
              \<longrightarrow> reportFailure w ''Simulation'' err =
                    [ConsoleError (cross @ '' Simulation failed:'') [message err]]))"
  (is "(?W \<longrightarrow> ?A) \<and> (?S \<longrightarrow> ?B1 \<and> ?B2 \<and> ?B3 \<and> ?B4)")
proof -
  have B3: ?B3
  proof (intro allI impI)
    fix d
    assume "(top_data err = Some d \<or> top_data err = None \<and> cause_data err = Some (Some d))
                \<and> d \<noteq> []"
    then show "reportFailure w ''Simulation'' err =
                    (case decodeErrorResult w d of
                       Some (errorName, args) \<Rightarrow>
                         [ConsoleError (cross @ '' Simulation failed: '' @ errorName) args]
                     | None \<Rightarrow>
                         [ConsoleError (cross @ '' Simulation failed:'') [message err],
                          ConsoleError ''Revert data:'' [d]])"
      using reportFailure_with_data [of err d w "''Simulation''"]
      by (simp split: option.split prod.split)
  qed
  have B4: ?B4
    using reportFailure_without_data [of err w "''Simulation''"] by simp
  from submitProof_stages [of w options] show ?thesis
  proof (elim disjE exE conjE)
    fix es e
    assume stop: "submitProof w options = (es, Inl e)"
      and console: "\<forall>x \<in> set es. \<exists>l as. x = ConsoleError l as"
    from console have "WriteContract a jd z \<notin> set es" and "SimulateContract a jd z acct \<notin> set es"
      by blast+
    with stop have "\<not> ?W" and "\<not> ?S" by simp_all
    then show ?thesis by blast
  next
    fix rpcUrl' a' acct' z' jd' d
    assume rpc: "selectRpcUrl w options = Inr rpcUrl'"
      and run: "submitProof w options =
         andThen (simulate w rpcUrl' a' jd' z' acct') (\<lambda>_.
         andThen (submit w rpcUrl' a' jd' z') (\<lambda>hash. confirm w rpcUrl' a' hash))"
    show ?thesis
    proof (cases "simulateContract w rpcUrl' a' jd' z' acct'")
      case (Some err')
      have eff: "submitProof w options =
          (SimulateContract a' jd' z' acct' # reportFailure w ''Simulation'' err',
           Inl (Propagated err'))"
        using run simulation_failed [OF Some] by simp
      have B2: ?B2
      proof (intro allI notI)
        fix a'' jd'' z''
        assume "WriteContract a'' jd'' z'' \<in> set (fst (submitProof w options))"
        with eff have "WriteContract a'' jd'' z'' \<in> set (reportFailure w ''Simulation'' err')"
          by simp
        with reportFailure_console [of w "''Simulation''" err'] show False by blast
      qed
      then have notW: "\<not> ?W" by blast
      have "?B1" if S: ?S
      proof -
        from S eff have "SimulateContract a jd z acct = SimulateContract a' jd' z' acct'
            \<or> SimulateContract a jd z acct \<in> set (reportFailure w ''Simulation'' err')"
          by simp
        with reportFailure_console [of w "''Simulation''" err']
        have same: "a = a'" "jd = jd'" "z = z'" "acct = acct'" by blast+
        from S rpc have "rpcUrl = rpcUrl'" by simp
        with S Some same have "err = err'" by simp
        with eff same show ?B1 by simp
      qed
      with notW B2 B3 B4 show ?thesis by blast
    next
      case None
      note shape = effects_after_simulation [OF None, folded run]
      have here: "\<exists>later. fst (submitProof w options) =
          SimulateContract a' jd' z' acct' # WriteContract a' jd' z' # later"
        using run simulation_passed [OF None] by simp
      have A: ?A if W: ?W
      proof -
        from shape [OF W] have "a = a'" "jd = jd'" "z = z'" by simp_all
        with rpc here None show ?A by blast
      qed
      have notS: "\<not> ?S"
      proof
        assume S: ?S
        then have "SimulateContract a jd z acct \<in> set (fst (submitProof w options))" by simp
        from shape [OF this] have "a = a'" "jd = jd'" "z = z'" "acct = acct'" by simp_all
        moreover from S rpc have "rpcUrl = rpcUrl'" by simp
        ultimately show False using S None by simp
      qed
      from A notS show ?thesis by blast
    qed
  qed
qed

theorem simulation_failure_blocks_submission_witness:
  "submitProof test_world (test_options ''altered.json'') =
       ([SimulateContract ''0x5FbDB2315678afecb367f032d93F642f64180aa3'' ''0x02'' ''0xAA''
           ''0xf39Fd6e51aad88F6F4ce6aB8827279cffFb92266'',
         ConsoleError (cross @ '' Simulation failed:'')
           [''The contract function submitBalance reverted. Error: InvalidQueriesHash()'']],
        Inl (Propagated
               (Thrown ''The contract function submitBalance reverted. Error: InvalidQueriesHash()''
                  None (Some None))))
   \<and> WriteContract ''0x5FbDB2315678afecb367f032d93F642f64180aa3'' ''0x02'' ''0xAA''
        \<notin> set (fst (submitProof test_world (test_options ''altered.json'')))
   \<and> submitProof (raw_error_world ''0x0a07c17d'') (test_options ''altered.json'') =
       ([SimulateContract ''0x5FbDB2315678afecb367f032d93F642f64180aa3'' ''0x02'' ''0xAA''
           ''0xf39Fd6e51aad88F6F4ce6aB8827279cffFb92266'',
         ConsoleError (cross @ '' Simulation failed: InvalidQueriesHash'') []],
        Inl (Propagated (Thrown ''execution reverted'' (Some ''0x0a07c17d'') None)))
   \<and> submitProof (raw_error_world ''0xdeadbeef'') (test_options ''altered.json'') =
       ([SimulateContract ''0x5FbDB2315678afecb367f032d93F642f64180aa3'' ''0x02'' ''0xAA''
           ''0xf39Fd6e51aad88F6F4ce6aB8827279cffFb92266'',
         ConsoleError (cross @ '' Simulation failed:'') [''execution reverted''],
         ConsoleError ''Revert data:'' [''0xdeadbeef'']],
        Inl (Propagated (Thrown ''execution reverted'' (Some ''0xdeadbeef'') None)))
   \<and> WriteContract ''0x5FbDB2315678afecb367f032d93F642f64180aa3'' ''0x01'' ''0xAA''
        \<in> set (fst (submitProof test_world (test_options ''ok.json'')))
   \<and> simulateContract test_world ''https://rpc.sepolia.org''
        ''0x5FbDB2315678afecb367f032d93F642f64180aa3'' ''0x01'' ''0xAA''
        ''0xf39Fd6e51aad88F6F4ce6aB8827279cffFb92266'' = None"
proof -
  let ?a = "''0x5FbDB2315678afecb367f032d93F642f64180aa3''"
  let ?acct = "''0xf39Fd6e51aad88F6F4ce6aB8827279cffFb92266''"
  let ?rpc = "''https://rpc.sepolia.org''"
  let ?o = "test_options ''altered.json''"
  let ?viem = "Thrown ''The contract function submitBalance reverted. Error: InvalidQueriesHash()''
                  None (Some None)"
  let ?raw = "\<lambda>d. Thrown ''execution reverted'' (Some d) None"
  have rpc: "selectRpcUrl test_world ?o = Inr ?rpc"
    "selectRpcUrl (raw_error_world ''0x0a07c17d'') ?o = Inr ?rpc"
    "selectRpcUrl (raw_error_world ''0xdeadbeef'') ?o = Inr ?rpc"
    by (simp_all add: client_defs world_defs raw_error_world_def)
  have sim: "SimulateContract ?a ''0x02'' ''0xAA'' ?acct \<in> set (fst (submitProof test_world ?o))"
    "SimulateContract ?a ''0x02'' ''0xAA'' ?acct
       \<in> set (fst (submitProof (raw_error_world ''0x0a07c17d'') ?o))"
    "SimulateContract ?a ''0x02'' ''0xAA'' ?acct
       \<in> set (fst (submitProof (raw_error_world ''0xdeadbeef'') ?o))"
    by (simp_all add: client_defs world_defs raw_error_world_def)
  have rej: "simulateContract test_world ?rpc ?a ''0x02'' ''0xAA'' ?acct = Some ?viem"
    "simulateContract (raw_error_world ''0x0a07c17d'') ?rpc ?a ''0x02'' ''0xAA'' ?acct
       = Some (?raw ''0x0a07c17d'')"
    "simulateContract (raw_error_world ''0xdeadbeef'') ?rpc ?a ''0x02'' ''0xAA'' ?acct
       = Some (?raw ''0xdeadbeef'')"
    by (simp_all add: world_defs raw_error_world_def)
  have dec: "decodeErrorResult (raw_error_world ''0x0a07c17d'') ''0x0a07c17d''
       = Some (''InvalidQueriesHash'', [])"
    "decodeErrorResult (raw_error_world ''0xdeadbeef'') ''0xdeadbeef'' = None"
    by (simp_all add: world_defs raw_error_world_def)
  have wr: "WriteContract ?a ''0x01'' ''0xAA''
        \<in> set (fst (submitProof test_world (test_options ''ok.json'')))"
    by (simp add: client_defs world_defs)
  have acc: "simulateContract test_world ?rpc ?a ''0x01'' ''0xAA'' ?acct = None"
    by (simp add: world_defs)
  from simulation_failure_blocks_submission
         [of ?a "''0x02''" "''0xAA''" test_world ?o ?rpc ?acct ?viem]
       rpc(1) sim(1) rej(1)
  have one: "submitProof test_world ?o =
       ([SimulateContract ?a ''0x02'' ''0xAA'' ?acct,
         ConsoleError (cross @ '' Simulation failed:'')
           [''The contract function submitBalance reverted. Error: InvalidQueriesHash()'']],
        Inl (Propagated ?viem))
     \<and> WriteContract ?a ''0x02'' ''0xAA'' \<notin> set (fst (submitProof test_world ?o))"
    by simp
  from simulation_failure_blocks_submission
         [of ?a "''0x02''" "''0xAA''" "raw_error_world ''0x0a07c17d''" ?o ?rpc ?acct
             "?raw ''0x0a07c17d''"]
       rpc(2) sim(2) rej(2) dec(1)
  have two: "submitProof (raw_error_world ''0x0a07c17d'') ?o =
       ([SimulateContract ?a ''0x02'' ''0xAA'' ?acct,
         ConsoleError (cross @ '' Simulation failed: InvalidQueriesHash'') []],
        Inl (Propagated (?raw ''0x0a07c17d'')))"
    by simp
  from simulation_failure_blocks_submission
         [of ?a "''0x02''" "''0xAA''" "raw_error_world ''0xdeadbeef''" ?o ?rpc ?acct
             "?raw ''0xdeadbeef''"]
       rpc(3) sim(3) rej(3) dec(2)
  have three: "submitProof (raw_error_world ''0xdeadbeef'') ?o =
       ([SimulateContract ?a ''0x02'' ''0xAA'' ?acct,
         ConsoleError (cross @ '' Simulation failed:'') [''execution reverted''],
         ConsoleError ''Revert data:'' [''0xdeadbeef'']],
        Inl (Propagated (?raw ''0xdeadbeef'')))"
    by simp
  from one two three wr acc show ?thesis by simp
qed

text \<open>
  The bundle with the altered queries hash, rejected by the simulation with an error object
  of the library's shape: the report is the message alone, with neither a decoded error
  name nor the raw revert data.
\<close>

theorem simulation_report_counterexample:
  "simulateContract test_world ''https://rpc.sepolia.org''
        ''0x5FbDB2315678afecb367f032d93F642f64180aa3'' ''0x02'' ''0xAA''
        ''0xf39Fd6e51aad88F6F4ce6aB8827279cffFb92266''
      = Some (Thrown ''The contract function submitBalance reverted. Error: InvalidQueriesHash()''
                None (Some None))
   \<and> submitProof test_world (test_options ''altered.json'') =
       ([SimulateContract ''0x5FbDB2315678afecb367f032d93F642f64180aa3'' ''0x02'' ''0xAA''
           ''0xf39Fd6e51aad88F6F4ce6aB8827279cffFb92266'',
         ConsoleError (cross @ '' Simulation failed:'')
           [''The contract function submitBalance reverted. Error: InvalidQueriesHash()'']],
        Inl (Propagated
               (Thrown ''The contract function submitBalance reverted. Error: InvalidQueriesHash()''
                  None (Some None))))"
  by (simp add: client_defs world_defs)

text \<open>
  C9. A failure of the client's own decode of the journal is reported on the console and
  ends the submission: \<open>submitProof\<close> throws \<open>Failed to decode journalDataAbi\<close>, and neither
  the simulation nor the transaction is attempted.
\<close>

theorem journal_decode_failure_aborts:
  assumes "selectRpcUrl w options = Inr rpcUrl"
    and "resolveContractAddress w options = Inr a"
    and "setupWallet w = Inr acct"
    and "loadProof w (proofFile options) = Inr (z, jd)"
    and "decodeAbiParameters w jd = Inl err"
  shows "submitProof w options =
           ([ConsoleError ''Error decoding journalDataAbi:'' [message err]],
            Inl FailedToDecodeJournalDataAbi)
         \<and> SimulateContract a jd z acct \<notin> set (fst (submitProof w options))
         \<and> WriteContract a jd z \<notin> set (fst (submitProof w options))"
  using assms by (simp add: submitProof_def andThen_def quiet_def decodeForLog_def)

theorem journal_decode_failure_aborts_witness:
  "submitProof test_world (test_options ''truncated.json'') =
     ([ConsoleError ''Error decoding journalDataAbi:''
         [''Data size of 2 bytes is too small for given parameters.'']],
      Inl FailedToDecodeJournalDataAbi)"
proof -
  have "selectRpcUrl test_world (test_options ''truncated.json'') = Inr ''https://rpc.sepolia.org''"
    and "resolveContractAddress test_world (test_options ''truncated.json'')
           = Inr ''0x5FbDB2315678afecb367f032d93F642f64180aa3''"
    and "setupWallet test_world = Inr ''0xf39Fd6e51aad88F6F4ce6aB8827279cffFb92266''"
    and "loadProof test_world (proofFile (test_options ''truncated.json'')) = Inr (''0xAA'', ''0x1234'')"
    and "decodeAbiParameters test_world ''0x1234''
           = Inl (Thrown ''Data size of 2 bytes is too small for given parameters.'' None None)"
    by (simp_all add: client_defs world_defs)
  from journal_decode_failure_aborts [OF this] show ?thesis by simp
qed

theorem journal_decode_failure_counterexample:
  "decodeAbiParameters test_world ''0x1234''
     = Inl (Thrown ''Data size of 2 bytes is too small for given parameters.'' None None)
   \<and> submitProof test_world (test_options ''truncated.json'') =
     ([ConsoleError ''Error decoding journalDataAbi:''
         [''Data size of 2 bytes is too small for given parameters.'']],
      Inl FailedToDecodeJournalDataAbi)
   \<and> SimulateContract ''0x5FbDB2315678afecb367f032d93F642f64180aa3'' ''0x1234'' ''0xAA''
        ''0xf39Fd6e51aad88F6F4ce6aB8827279cffFb92266''
        \<notin> set (fst (submitProof test_world (test_options ''truncated.json'')))
   \<and> WriteContract ''0x5FbDB2315678afecb367f032d93F642f64180aa3'' ''0x1234'' ''0xAA''
        \<notin> set (fst (submitProof test_world (test_options ''truncated.json'')))"
  by (simp add: client_defs world_defs)

end
